theory Spec2Isabelle
  imports Complex_Main
begin

section \<open>Python values\<close>

text \<open>
  The adapter in \<^verbatim>\<open>midealocal/devices/x40/__init__.py\<close> stores and passes on untyped
  Python values: attribute values, the user's \<^verbatim>\<open>value\<close> argument and the result of
  \<^verbatim>\<open>json.loads\<close>. They are modelled by one datatype. A finite float carries its exact
  rational value (every double is a rational; the sign of zero is not kept, and no
  operation used here distinguishes it). A dict is the list of its items, keys distinct.
\<close>

datatype pyfloat = FNan | FInf bool | FFin rat

datatype pyval =
    PNone
  | PBool bool
  | PInt int
  | PFloat pyfloat
  | PStr string
  | PList "pyval list"
  | PDict "(string \<times> pyval) list"

text \<open>The exceptions that the modelled operations raise.\<close>

datatype exn =
    ValueError
  | TypeError
  | OverflowError
  | AttributeError
  | JSONDecodeError
  | RecursionError

subsection \<open>Truth value: \<^verbatim>\<open>bool(x)\<close>, \<^verbatim>\<open>if x\<close>, \<^verbatim>\<open>x and y\<close>\<close>

fun truthy :: "pyval \<Rightarrow> bool" where
  "truthy PNone = False"
| "truthy (PBool b) = b"
| "truthy (PInt n) = (n \<noteq> 0)"
| "truthy (PFloat FNan) = True"
| "truthy (PFloat (FInf s)) = True"
| "truthy (PFloat (FFin x)) = (x \<noteq> 0)"
| "truthy (PStr s) = (s \<noteq> [])"
| "truthy (PList xs) = (xs \<noteq> [])"
| "truthy (PDict kvs) = (kvs \<noteq> [])"

subsection \<open>Equality with an integer constant: \<^verbatim>\<open>x == n\<close>\<close>

text \<open>
  Python compares numbers by value across \<^verbatim>\<open>bool\<close>, \<^verbatim>\<open>int\<close> and \<^verbatim>\<open>float\<close>
  (\<^verbatim>\<open>False == 0\<close>, \<^verbatim>\<open>253.0 == 0xFD\<close>); every other value differs from an integer.
\<close>

fun py_eq_int :: "pyval \<Rightarrow> int \<Rightarrow> bool" where
  "py_eq_int (PBool b) n = ((if b then 1 else 0) = n)"
| "py_eq_int (PInt i) n = (i = n)"
| "py_eq_int (PFloat (FFin x)) n = (x = of_int n)"
| "py_eq_int _ n = False"

text \<open>\<^verbatim>\<open>x in (a, b, c)\<close> for a tuple of integer constants.\<close>

fun py_in_ints :: "pyval \<Rightarrow> int list \<Rightarrow> bool" where
  "py_in_ints v [] = False"
| "py_in_ints v (n # ns) = (py_eq_int v n \<or> py_in_ints v ns)"

subsection \<open>Conversion to an integer: \<^verbatim>\<open>int(x)\<close>\<close>

text \<open>
  \<^verbatim>\<open>int\<close> of a string (CPython's \<^verbatim>\<open>PyLong_FromString\<close>, base 10): leading white
  space, an optional sign, decimal digits with single underscores between them,
  trailing white space; anything else is a \<^verbatim>\<open>ValueError\<close>, as are more than 4300
  digits (the interpreter's default limit). A character is a code point below 256.
  Before the scan, \<^verbatim>\<open>int\<close> replaces every white space character above U+007F by a
  space, so the white space it skips is the six ASCII characters and, among the code
  points below 256, the next line U+0085 and the no-break space U+00A0; no code point
  below 256 other than the ASCII digits is a decimal digit. Strings with code points
  from 256 on are not modelled.
\<close>

definition is_space :: "char \<Rightarrow> bool" where
  "is_space c = (c = CHR '' '' \<or> c = CHR 0x09 \<or> c = CHR 0x0A \<or> c = CHR 0x0B
      \<or> c = CHR 0x0C \<or> c = CHR 0x0D \<or> c = CHR 0x85 \<or> c = CHR 0xA0)"

definition is_digit :: "char \<Rightarrow> bool" where
  "is_digit c = (48 \<le> (of_char c :: nat) \<and> (of_char c :: nat) \<le> 57)"

definition digit_val :: "char \<Rightarrow> int" where
  "digit_val c = int (of_char c) - 48"

text \<open>
  The scan over digits and underscores: the flag says that the previous character was
  an underscore, the accumulator is the value so far, the counter the number of
  digits. \<open>None\<close> is a double underscore; otherwise the scan stops at the first
  character that is neither a digit nor an underscore.
\<close>

fun scan_digits :: "bool \<Rightarrow> int \<Rightarrow> nat \<Rightarrow> string \<Rightarrow> (bool \<times> int \<times> nat \<times> string) option" where
  "scan_digits us acc n [] = Some (us, acc, n, [])"
| "scan_digits us acc n (c # cs) =
     (if c = CHR ''_'' then (if us then None else scan_digits True acc n cs)
      else if is_digit c then scan_digits False (10 * acc + digit_val c) (Suc n) cs
      else Some (us, acc, n, c # cs))"

definition max_str_digits :: nat where
  "max_str_digits = 4300"

definition int_of_str :: "string \<Rightarrow> exn + int" where
  "int_of_str s =
     (let s1 = dropWhile is_space s;
          neg = (case s1 of c # cs \<Rightarrow> c = CHR ''-'' | [] \<Rightarrow> False);
          s2 = (case s1 of c # cs \<Rightarrow> if c = CHR ''+'' \<or> c = CHR ''-'' then cs else s1
                | [] \<Rightarrow> [])
      in case s2 of
           [] \<Rightarrow> Inl ValueError
         | c # cs \<Rightarrow>
             if c = CHR ''_'' then Inl ValueError
             else (case scan_digits False 0 0 s2 of
                     None \<Rightarrow> Inl ValueError
                   | Some (us, acc, n, rest) \<Rightarrow>
                       if us \<or> n = 0 \<or> dropWhile is_space rest \<noteq> [] then Inl ValueError
                       else if max_str_digits < n then Inl ValueError
                       else Inr (if neg then - acc else acc)))"

text \<open>\<^verbatim>\<open>int\<close> of a float truncates towards zero; it raises on \<^verbatim>\<open>nan\<close> and on infinities.\<close>

definition trunc :: "rat \<Rightarrow> int" where
  "trunc x = (if 0 \<le> x then \<lfloor>x\<rfloor> else \<lceil>x\<rceil>)"

fun py_int :: "pyval \<Rightarrow> exn + int" where
  "py_int PNone = Inl TypeError"
| "py_int (PBool b) = Inr (if b then 1 else 0)"
| "py_int (PInt n) = Inr n"
| "py_int (PFloat FNan) = Inl ValueError"
| "py_int (PFloat (FInf s)) = Inl OverflowError"
| "py_int (PFloat (FFin x)) = Inr (trunc x)"
| "py_int (PStr s) = int_of_str s"
| "py_int (PList xs) = Inl TypeError"
| "py_int (PDict kvs) = Inl TypeError"

subsection \<open>True division by two: \<^verbatim>\<open>value /= 2\<close>\<close>

text \<open>
  Python's \<^verbatim>\<open>int / int\<close> is the quotient rounded to the nearest double (ties to even),
  and an \<^verbatim>\<open>OverflowError\<close> when that is \<open>2 ^ 1024\<close> or more. \<open>shift_to53\<close> is the
  number of low bits that do not fit a 53-bit significand.
\<close>

function shift_to53 :: "nat \<Rightarrow> nat" where
  "shift_to53 a = (if a < 2 ^ 53 then 0 else Suc (shift_to53 (a div 2)))"
  by pat_completeness auto
termination
  by (relation "measure (\<lambda>a. a)") auto

declare shift_to53.simps [simp del]

definition int_truediv2 :: "int \<Rightarrow> exn + pyfloat" where
  "int_truediv2 n =
     (let a = nat \<bar>n\<bar>;
          sh = shift_to53 a;
          q = a div 2 ^ sh;
          r = a mod 2 ^ sh;
          q' = (if 2 ^ sh < 2 * r \<or> (2 * r = 2 ^ sh \<and> odd q) then q + 1 else q);
          m = q' * 2 ^ sh
      in if 2 ^ 1025 \<le> m then Inl OverflowError
         else Inr (FFin (of_int (sgn n * int m) / 2)))"

text \<open>
  A double divided by two is exact unless the quotient is subnormal (below
  \<open>2 ^ -1022\<close>), where it is rounded to a multiple of \<open>2 ^ -1074\<close>, ties to even.
\<close>

fun float_truediv2 :: "pyfloat \<Rightarrow> pyfloat" where
  "float_truediv2 FNan = FNan"
| "float_truediv2 (FInf s) = FInf s"
| "float_truediv2 (FFin x) =
     (if 1 / 2 ^ 1021 \<le> \<bar>x\<bar> then FFin (x / 2)
      else let k = \<lfloor>\<bar>x\<bar> * 2 ^ 1074\<rfloor>;
               q = k div 2;
               q' = (if odd k \<and> odd q then q + 1 else q)
           in FFin (sgn x * of_int q' / 2 ^ 1074))"

fun py_truediv2 :: "pyval \<Rightarrow> exn + pyval" where
  "py_truediv2 (PBool b) = map_sum id PFloat (int_truediv2 (if b then 1 else 0))"
| "py_truediv2 (PInt n) = map_sum id PFloat (int_truediv2 n)"
| "py_truediv2 (PFloat f) = Inr (PFloat (float_truediv2 f))"
| "py_truediv2 _ = Inl TypeError"

subsection \<open>Membership and \<^verbatim>\<open>get\<close> on a decoded JSON value\<close>

fun contains_str :: "string \<Rightarrow> string \<Rightarrow> bool" where
  "contains_str key [] = (key = [])"
| "contains_str key (c # cs) = (take (length key) (c # cs) = key \<or> contains_str key cs)"

text \<open>
  \<^verbatim>\<open>key in params\<close>: a key of a dict, an element of a list, a substring of a string;
  a number or a boolean is not iterable.
\<close>

fun py_contains :: "string \<Rightarrow> pyval \<Rightarrow> exn + bool" where
  "py_contains key (PDict kvs) = Inr (map_of kvs key \<noteq> None)"
| "py_contains key (PList xs) = Inr (PStr key \<in> set xs)"
| "py_contains key (PStr s) = Inr (contains_str key s)"
| "py_contains key _ = Inl TypeError"

text \<open>\<^verbatim>\<open>params.get(key)\<close>: only a dict has the method.\<close>

fun py_get :: "pyval \<Rightarrow> string \<Rightarrow> exn + pyval" where
  "py_get (PDict kvs) key = Inr (case map_of kvs key of None \<Rightarrow> PNone | Some v \<Rightarrow> v)"
| "py_get _ key = Inl AttributeError"

section \<open>Constants of the x40 device\<close>

definition DIRECTION_MIN_VALUE :: int where "DIRECTION_MIN_VALUE = 60"
definition DIRECTION_MAX_VALUE :: int where "DIRECTION_MAX_VALUE = 120"
definition VENTILATION_FAN_SPEED :: int where "VENTILATION_FAN_SPEED = 2"
definition DIRECTION_OSCILLATE :: int where "DIRECTION_OSCILLATE = 0xFD"
definition DIRECTION_STOP :: int where "DIRECTION_STOP = 0xFE"
definition DIRECTION_00 :: int where "DIRECTION_00 = 0x00"
definition DIRECTION_FF :: int where "DIRECTION_FF = 0xFF"

section \<open>Coercion of a user-supplied direction\<close>

text \<open>
  \<^verbatim>\<open>_convert_to_midea_direction\<close> (lines 83 to 91): \<^verbatim>\<open>int(direction)\<close> first, whose
  exception is not caught, then the range test.
\<close>

definition convert_to_midea_direction :: "pyval \<Rightarrow> exn + int" where
  "convert_to_midea_direction v =
     (case py_int v of
        Inl e \<Rightarrow> Inl e
      | Inr d \<Rightarrow>
          if py_in_ints (PInt d) [DIRECTION_OSCILLATE, DIRECTION_STOP]
             \<or> (DIRECTION_MIN_VALUE \<le> d \<and> d \<le> DIRECTION_MAX_VALUE)
          then Inr d
          else Inr DIRECTION_FF)"

section \<open>The device\<close>

datatype DeviceAttributes =
    light
  | fan_speed
  | direction
  | oscillation
  | ventilation
  | smelly_sensor
  | current_temperature

text \<open>The value of a member of the \<^verbatim>\<open>StrEnum\<close>, which is also its \<^verbatim>\<open>str()\<close>.\<close>

fun attr_name :: "DeviceAttributes \<Rightarrow> string" where
  "attr_name light = ''light''"
| "attr_name fan_speed = ''fan_speed''"
| "attr_name direction = ''direction''"
| "attr_name oscillation = ''oscillation''"
| "attr_name ventilation = ''ventilation''"
| "attr_name smelly_sensor = ''smelly_sensor''"
| "attr_name current_temperature = ''current_temperature''"

text \<open>
  Modelled from the spec: the class \<^verbatim>\<open>MessageX40Response\<close> (module \<^verbatim>\<open>.message\<close>) is not
  part of the source at hand. A decoded response has the raw \<^verbatim>\<open>fields\<close> and per-attribute
  fields; the wire protocol encodes direction and oscillation into one byte, the
  direction, so a response has no attribute \<^verbatim>\<open>oscillation\<close> of its own (lines 125 to 131
  derive the oscillation from the direction byte). Each of the other six attributes is
  there or not, with any value.
\<close>

record MessageX40Response =
  rsp_fields :: "(string \<times> pyval) list"
  rsp_light :: "pyval option"
  rsp_fan_speed :: "pyval option"
  rsp_direction :: "pyval option"
  rsp_ventilation :: "pyval option"
  rsp_smelly_sensor :: "pyval option"
  rsp_current_temperature :: "pyval option"

text \<open>
  \<^verbatim>\<open>hasattr(message, str(status))\<close> and \<^verbatim>\<open>getattr(message, str(status))\<close>: \<open>None\<close> where
  the response has no such attribute.
\<close>

fun rsp_attr :: "MessageX40Response \<Rightarrow> DeviceAttributes \<Rightarrow> pyval option" where
  "rsp_attr message light = rsp_light message"
| "rsp_attr message fan_speed = rsp_fan_speed message"
| "rsp_attr message direction = rsp_direction message"
| "rsp_attr message oscillation = None"
| "rsp_attr message ventilation = rsp_ventilation message"
| "rsp_attr message smelly_sensor = rsp_smelly_sensor message"
| "rsp_attr message current_temperature = rsp_current_temperature message"

text \<open>
  The class \<^verbatim>\<open>MessageSet\<close> and the base class \<^verbatim>\<open>MideaDevice\<close> are absent as well. Of a
  \<^verbatim>\<open>MessageSet\<close> the adapter assigns \<^verbatim>\<open>fields\<close> and the five settable attributes, taken
  here to be plain attributes.
\<close>

record MessageSet =
  msg_protocol_version :: pyval
  msg_fields :: "(string \<times> pyval) list"
  msg_light :: pyval
  msg_ventilation :: pyval
  msg_smelly_sensor :: pyval
  msg_fan_speed :: pyval
  msg_direction :: pyval

text \<open>
  The state of a \<^verbatim>\<open>MideaX40Device\<close>: \<^verbatim>\<open>_attributes\<close> (a dict whose seven keys never
  change, so a function), \<^verbatim>\<open>_fields\<close>, \<^verbatim>\<open>_precision_halves\<close> and the base class's
  \<^verbatim>\<open>_protocol_version\<close>. The calls into the absent base class are recorded in the order
  they are made: \<open>sent\<close> holds the messages given to \<^verbatim>\<open>build_send\<close>, \<open>updates\<close> the
  dicts given to \<^verbatim>\<open>update_all\<close>; \<open>exception_log\<close> holds the exceptions given to
  \<^verbatim>\<open>_LOGGER.exception\<close>. Debug logging is not modelled.
\<close>

record device =
  protocol_version :: pyval
  attributes :: "DeviceAttributes \<Rightarrow> pyval"
  raw_fields :: "(string \<times> pyval) list"
  precision_halves :: pyval
  sent :: "MessageSet list"
  updates :: "(string \<times> pyval) list list"
  exception_log :: "exn list"

text \<open>The keys of \<^verbatim>\<open>_attributes\<close> in insertion order (lines 63 to 71).\<close>

definition attribute_order :: "DeviceAttributes list" where
  "attribute_order =
     [light, fan_speed, direction, oscillation, ventilation, smelly_sensor,
      current_temperature]"

fun initial_attributes :: "DeviceAttributes \<Rightarrow> pyval" where
  "initial_attributes light = PBool False"
| "initial_attributes fan_speed = PInt 0"
| "initial_attributes direction = PNone"
| "initial_attributes oscillation = PNone"
| "initial_attributes ventilation = PBool False"
| "initial_attributes smelly_sensor = PBool False"
| "initial_attributes current_temperature = PNone"

text \<open>\<^verbatim>\<open>_default_precision_halves\<close> is assigned once (line 75) and never again.\<close>

definition default_precision_halves :: pyval where
  "default_precision_halves = PBool False"

text \<open>
  Modelled from the spec: \<^verbatim>\<open>build_send\<close> and \<^verbatim>\<open>update_all\<close> of the absent base class
  \<^verbatim>\<open>MideaDevice\<close> are the send routine and the notification path; the model records
  each call and changes nothing else.
\<close>

definition build_send :: "MessageSet \<Rightarrow> device \<Rightarrow> device" where
  "build_send message d = d\<lparr>sent := sent d @ [message]\<rparr>"

definition update_all :: "(string \<times> pyval) list \<Rightarrow> device \<Rightarrow> device" where
  "update_all status d = d\<lparr>updates := updates d @ [status]\<rparr>"

subsection \<open>Direction byte from the stored state\<close>

text \<open>
  \<^verbatim>\<open>_get_midea_direction\<close> (lines 93 to 101). \<^verbatim>\<open>is True\<close> and \<^verbatim>\<open>is False\<close> hold of the
  two booleans only. The stored direction is returned as it is.
\<close>

definition get_midea_direction :: "device \<Rightarrow> pyval" where
  "get_midea_direction d =
     (let osc = attributes d oscillation in
      if osc = PBool True then PInt DIRECTION_OSCILLATE
      else if osc = PBool False then
        (let dir = attributes d direction in
         if dir = PNone then PInt DIRECTION_STOP else dir)
      else PInt DIRECTION_FF)"

subsection \<open>Inbound messages\<close>

text \<open>
  One round of the loop of \<^verbatim>\<open>process_message\<close> (lines 114 to 133) for the key
  \<open>status\<close>, on the device and the \<^verbatim>\<open>new_status\<close> built so far (a dict, as the list of
  its items in insertion order). \<open>store_status\<close> is lines 132 and 133. The only
  operation that can raise is the division, before anything is assigned in that round;
  the first case of the direction is the \<^verbatim>\<open>continue\<close>.
\<close>

definition store_status ::
  "DeviceAttributes \<Rightarrow> pyval \<Rightarrow> device \<Rightarrow> (string \<times> pyval) list
    \<Rightarrow> device \<times> (string \<times> pyval) list" where
  "store_status status v d new_status =
     (let d' = d\<lparr>attributes := (attributes d)(status := v)\<rparr>
      in (d', new_status @ [(attr_name status, attributes d' status)]))"

definition process_status ::
  "MessageX40Response \<Rightarrow> DeviceAttributes \<Rightarrow> device \<times> (string \<times> pyval) list
    \<Rightarrow> exn + device \<times> (string \<times> pyval) list" where
  "process_status message status st =
     (let d = fst st; new_status = snd st in
      case rsp_attr message status of
        None \<Rightarrow> Inr (d, new_status)
      | Some raw \<Rightarrow>
          (case (if truthy (precision_halves d) \<and> status = current_temperature
                 then py_truediv2 raw else Inr raw) of
             Inl e \<Rightarrow> Inl e
           | Inr v \<Rightarrow>
               if status = direction then
                 if py_in_ints v [DIRECTION_STOP, DIRECTION_00, DIRECTION_FF]
                 then Inr (d, new_status)
                 else if py_eq_int v DIRECTION_OSCILLATE then
                   Inr (store_status status PNone
                          (d\<lparr>attributes := (attributes d)(oscillation := PBool True)\<rparr>)
                          new_status)
                 else
                   Inr (store_status status v
                          (d\<lparr>attributes := (attributes d)(oscillation := PBool False)\<rparr>)
                          new_status)
               else Inr (store_status status v d new_status)))"

text \<open>
  The loop over the keys. An exception leaves the method with the device as the rounds
  before it left it.
\<close>

fun process_loop ::
  "MessageX40Response \<Rightarrow> DeviceAttributes list \<Rightarrow> device \<Rightarrow> (string \<times> pyval) list
    \<Rightarrow> device \<times> (exn + (string \<times> pyval) list)" where
  "process_loop message [] d new_status = (d, Inr new_status)"
| "process_loop message (status # rest) d new_status =
     (case process_status message status (d, new_status) of
        Inl e \<Rightarrow> (d, Inl e)
      | Inr (d', new_status') \<Rightarrow> process_loop message rest d' new_status')"

text \<open>
  \<^verbatim>\<open>process_message\<close> (lines 107 to 134), from the decoded response on: the device
  after the call, and the returned \<^verbatim>\<open>new_status\<close> or the exception raised.
\<close>

definition process_message ::
  "MessageX40Response \<Rightarrow> device \<Rightarrow> device \<times> (exn + (string \<times> pyval) list)" where
  "process_message message d =
     process_loop message attribute_order (d\<lparr>raw_fields := rsp_fields message\<rparr>) []"

subsection \<open>Outbound attribute set\<close>

text \<open>
  \<^verbatim>\<open>setattr(message, str(attr), value)\<close> (line 161) is reached with one of the four
  names below only.
\<close>

definition setattr_message :: "MessageSet \<Rightarrow> string \<Rightarrow> pyval \<Rightarrow> MessageSet" where
  "setattr_message message name v =
     (if name = attr_name light then message\<lparr>msg_light := v\<rparr>
      else if name = attr_name fan_speed then message\<lparr>msg_fan_speed := v\<rparr>
      else if name = attr_name ventilation then message\<lparr>msg_ventilation := v\<rparr>
      else if name = attr_name smelly_sensor then message\<lparr>msg_smelly_sensor := v\<rparr>
      else message)"

definition settable :: "string list" where
  "settable =
     [attr_name light, attr_name fan_speed, attr_name direction, attr_name ventilation,
      attr_name smelly_sensor]"

text \<open>The message as lines 145 to 151 fill it from the stored state.\<close>

definition message_from_state :: "device \<Rightarrow> MessageSet" where
  "message_from_state d =
     \<lparr>msg_protocol_version = protocol_version d,
      msg_fields = raw_fields d,
      msg_light = attributes d light,
      msg_ventilation = attributes d ventilation,
      msg_smelly_sensor = attributes d smelly_sensor,
      msg_fan_speed = attributes d fan_speed,
      msg_direction = get_midea_direction d\<rparr>"

text \<open>
  \<^verbatim>\<open>set_attribute\<close> (lines 136 to 162): the device after the call and the exception
  raised, if any.
\<close>

definition set_attribute :: "string \<Rightarrow> pyval \<Rightarrow> device \<Rightarrow> device \<times> exn option" where
  "set_attribute attr v d =
     (if attr \<in> set settable then
        let message = message_from_state d in
        if attr = attr_name direction then
          (case convert_to_midea_direction v of
             Inl e \<Rightarrow> (d, Some e)
           | Inr b \<Rightarrow> (build_send (message\<lparr>msg_direction := PInt b\<rparr>) d, None))
        else if attr = attr_name ventilation
                \<and> py_eq_int (msg_fan_speed message) VENTILATION_FAN_SPEED then
          (build_send (message\<lparr>msg_fan_speed := PInt 1,
                                msg_ventilation := PBool (truthy v)\<rparr>) d, None)
        else (build_send (setattr_message message attr v) d, None)
      else (d, None))"

subsection \<open>Configuration\<close>

text \<open>
  The body of the \<^verbatim>\<open>try\<close> (lines 169 to 171): the exception raised, or the value to
  assign to \<^verbatim>\<open>_precision_halves\<close>, if any. \<^verbatim>\<open>json.loads\<close> is the standard library's
  and a parameter here: the decoded value or the exception it raises.
\<close>

definition customize_params :: "(string \<Rightarrow> exn + pyval) \<Rightarrow> string \<Rightarrow> exn + pyval option" where
  "customize_params json_loads customize =
     (case json_loads customize of
        Inl e \<Rightarrow> Inl e
      | Inr params \<Rightarrow>
          if truthy params then
            (case py_contains ''precision_halves'' params of
               Inl e \<Rightarrow> Inl e
             | Inr False \<Rightarrow> Inr None
             | Inr True \<Rightarrow> map_sum id Some (py_get params ''precision_halves''))
          else Inr None)"

text \<open>\<^verbatim>\<open>set_customize\<close> (lines 164 to 174); \<^verbatim>\<open>except Exception\<close> catches each of \<open>exn\<close>.\<close>

definition set_customize :: "(string \<Rightarrow> exn + pyval) \<Rightarrow> string \<Rightarrow> device \<Rightarrow> device" where
  "set_customize json_loads customize d =
     (let d1 = d\<lparr>precision_halves := default_precision_halves\<rparr> in
      if customize \<noteq> [] \<and> 0 < length customize then
        let d2 = (case customize_params json_loads customize of
                    Inl e \<Rightarrow> d1\<lparr>exception_log := exception_log d1 @ [e]\<rparr>
                  | Inr None \<Rightarrow> d1
                  | Inr (Some v) \<Rightarrow> d1\<lparr>precision_halves := v\<rparr>)
        in update_all [(''precision_halves'', precision_halves d2)] d2
      else d1)"

subsection \<open>Construction\<close>

text \<open>
  \<^verbatim>\<open>__init__\<close> (lines 38 to 76). The base class's constructor is absent: it is given the
  initial attributes, and the protocol version it keeps is a parameter.
\<close>

definition new_device :: "(string \<Rightarrow> exn + pyval) \<Rightarrow> pyval \<Rightarrow> string \<Rightarrow> device" where
  "new_device json_loads version customize =
     set_customize json_loads customize
       \<lparr>protocol_version = version,
        attributes = initial_attributes,
        raw_fields = [],
        precision_halves = PNone,
        sent = [],
        updates = [],
        exception_log = []\<rparr>"

section \<open>Reachable states\<close>

text \<open>
  The stored direction as the comment of line 66 wants it: \<^verbatim>\<open>None\<close> or an integer from
  60 to 120.
\<close>

fun stored_direction_ok :: "pyval \<Rightarrow> bool" where
  "stored_direction_ok PNone = True"
| "stored_direction_ok (PInt n) = (DIRECTION_MIN_VALUE \<le> n \<and> n \<le> DIRECTION_MAX_VALUE)"
| "stored_direction_ok _ = False"

text \<open>
  The states that calls of \<^verbatim>\<open>process_message\<close> and \<^verbatim>\<open>set_attribute\<close> reach from a
  newly constructed device. A call that raises leaves the device as it was at the
  raise, which is a state as well.
\<close>

inductive reachable :: "device \<Rightarrow> bool" where
  reachable_new: "reachable (new_device json_loads version customize)"
| reachable_process: "reachable d \<Longrightarrow> reachable (fst (process_message message d))"
| reachable_set: "reachable d \<Longrightarrow> reachable (fst (set_attribute attr v d))"

section \<open>Sample inputs\<close>

text \<open>
  A response that has the attributes listed (of the six a response can have) and no
  others, with empty \<^verbatim>\<open>fields\<close>.
\<close>

definition response_of :: "(DeviceAttributes \<times> pyval) list \<Rightarrow> MessageX40Response" where
  "response_of kvs =
     \<lparr>rsp_fields = [],
      rsp_light = map_of kvs light,
      rsp_fan_speed = map_of kvs fan_speed,
      rsp_direction = map_of kvs direction,
      rsp_ventilation = map_of kvs ventilation,
      rsp_smelly_sensor = map_of kvs smelly_sensor,
      rsp_current_temperature = map_of kvs current_temperature\<rparr>"

text \<open>
  A stand-in for \<^verbatim>\<open>json.loads\<close> that agrees with it on the two strings the examples
  use: the object with the key \<^verbatim>\<open>precision_halves\<close> set to \<^verbatim>\<open>true\<close>, and a string
  that is not JSON. Its value on other strings is not used.
\<close>

definition json_loads_sample :: "string \<Rightarrow> exn + pyval" where
  \<open>json_loads_sample s =
     (if s = ''{"precision_halves": true}''
      then Inr (PDict [(''precision_halves'', PBool True)])
      else Inl JSONDecodeError)\<close>

text \<open>A device constructed with an empty customize string.\<close>

definition sample_device :: device where
  "sample_device = new_device json_loads_sample (PInt 3) ''''"

section \<open>Facts about the value operations\<close>

lemmas direction_consts =
  DIRECTION_MIN_VALUE_def DIRECTION_MAX_VALUE_def DIRECTION_OSCILLATE_def
  DIRECTION_STOP_def DIRECTION_00_def DIRECTION_FF_def

lemma shift_to53_small: "a < 2 ^ 53 \<Longrightarrow> shift_to53 a = 0"
  by (subst shift_to53.simps) simp

text \<open>Halving an integer of less than 54 bits loses nothing.\<close>

lemma int_truediv2_exact:
  assumes "\<bar>n\<bar> < 2 ^ 53"
  shows "int_truediv2 n = Inr (FFin (of_int n / 2))"
proof -
  have a: "nat \<bar>n\<bar> < 2 ^ 53" using assms by (simp add: nat_less_iff)
  have b: "\<not> (2 :: nat) ^ 1025 \<le> nat \<bar>n\<bar>"
  proof -
    have "(2 :: nat) ^ 53 \<le> 2 ^ 1025" by (rule power_increasing) simp_all
    with a show ?thesis by linarith
  qed
  have c: "sgn n * int (nat \<bar>n\<bar>) = n" by (simp add: sgn_if)
  show ?thesis
    using b c by (simp add: int_truediv2_def Let_def shift_to53_small [OF a])
qed

text \<open>
  Where \<^verbatim>\<open>int(direction)\<close> returns, the coercion returns the integer if it is valid and
  0xFF if not; where it raises, so does the coercion.
\<close>

lemma convert_to_midea_direction_int:
  "convert_to_midea_direction v =
     (case py_int v of
        Inl e \<Rightarrow> Inl e
      | Inr n \<Rightarrow> Inr (if n = 0xFD \<or> n = 0xFE \<or> (60 \<le> n \<and> n \<le> 120) then n else 0xFF))"
  by (auto simp: convert_to_midea_direction_def direction_consts split: sum.splits)

section \<open>Facts about the loop of \<^verbatim>\<open>process_message\<close>\<close>

text \<open>One round, by cases on what the response has.\<close>

lemma process_status_cases:
  "process_status m s (d, ns) =
     (case rsp_attr m s of
        None \<Rightarrow> Inr (d, ns)
      | Some raw \<Rightarrow>
          if s = current_temperature \<and> truthy (precision_halves d) then
            (case py_truediv2 raw of
               Inl e \<Rightarrow> Inl e
             | Inr v \<Rightarrow> Inr (store_status s v d ns))
          else if s = direction then
            (if py_in_ints raw [DIRECTION_STOP, DIRECTION_00, DIRECTION_FF] then Inr (d, ns)
             else if py_eq_int raw DIRECTION_OSCILLATE then
               Inr (store_status s PNone
                      (d\<lparr>attributes := (attributes d)(oscillation := PBool True)\<rparr>) ns)
             else
               Inr (store_status s raw
                      (d\<lparr>attributes := (attributes d)(oscillation := PBool False)\<rparr>) ns))
          else Inr (store_status s raw d ns))"
  by (auto simp: process_status_def Let_def split: option.splits sum.splits)

text \<open>Only the round of the temperature can raise.\<close>

lemma process_status_total:
  "s \<noteq> current_temperature \<Longrightarrow> \<exists>d' ns'. process_status m s (d, ns) = Inr (d', ns')"
  by (auto simp: process_status_cases store_status_def Let_def split: option.splits)

text \<open>
  A round leaves an attribute alone unless it is the round's own key and the response
  has it, or it is the oscillation in the round of the direction.
\<close>

lemma process_status_frame:
  assumes "process_status m s (d, ns) = Inr (d', ns')"
    and "a \<noteq> s \<or> rsp_attr m s = None"
    and "\<not> (a = oscillation \<and> s = direction)"
  shows "attributes d' a = attributes d a"
  using assms
  by (auto simp: process_status_cases store_status_def Let_def
      split: option.splits sum.splits if_splits)

lemma process_status_rest:
  assumes "process_status m s (d, ns) = Inr (d', ns')"
  shows "precision_halves d' = precision_halves d \<and> raw_fields d' = raw_fields d
    \<and> protocol_version d' = protocol_version d \<and> sent d' = sent d
    \<and> updates d' = updates d \<and> exception_log d' = exception_log d"
  using assms
  by (auto simp: process_status_cases store_status_def Let_def
      split: option.splits sum.splits if_splits)

lemma process_loop_frame:
  assumes "\<forall>s \<in> set ss. (a \<noteq> s \<or> rsp_attr m s = None) \<and> \<not> (a = oscillation \<and> s = direction)"
  shows "attributes (fst (process_loop m ss d ns)) a = attributes d a"
  using assms
proof (induction ss arbitrary: d ns)
  case Nil
  then show ?case by simp
next
  case (Cons s ss)
  show ?case
  proof (cases "process_status m s (d, ns)")
    case (Inl e)
    then show ?thesis by simp
  next
    case (Inr p)
    obtain d' ns' where p: "p = (d', ns')" by (cases p)
    from Inr p Cons.prems have "attributes d' a = attributes d a"
      by (intro process_status_frame [of m s d ns d' ns']) auto
    moreover from Cons.prems have "attributes (fst (process_loop m ss d' ns')) a = attributes d' a"
      by (intro Cons.IH) auto
    ultimately show ?thesis using Inr p by simp
  qed
qed

lemma process_loop_rest:
  "precision_halves (fst (process_loop m ss d ns)) = precision_halves d
   \<and> raw_fields (fst (process_loop m ss d ns)) = raw_fields d
   \<and> protocol_version (fst (process_loop m ss d ns)) = protocol_version d
   \<and> sent (fst (process_loop m ss d ns)) = sent d
   \<and> updates (fst (process_loop m ss d ns)) = updates d
   \<and> exception_log (fst (process_loop m ss d ns)) = exception_log d"
proof (induction ss arbitrary: d ns)
  case Nil
  then show ?case by simp
next
  case (Cons s ss)
  show ?case
  proof (cases "process_status m s (d, ns)")
    case (Inl e)
    then show ?thesis by simp
  next
    case (Inr p)
    obtain d' ns' where p: "p = (d', ns')" by (cases p)
    from Inr p have "process_status m s (d, ns) = Inr (d', ns')" by simp
    from process_status_rest [OF this] Cons.IH [of d' ns'] Inr p show ?thesis by simp
  qed
qed

lemma process_loop_append:
  "process_loop m (xs @ ys) d ns =
     (case process_loop m xs d ns of
        (d1, Inl e) \<Rightarrow> (d1, Inl e)
      | (d1, Inr ns1) \<Rightarrow> process_loop m ys d1 ns1)"
  by (induction xs arbitrary: d ns) (auto split: sum.splits prod.splits)

lemma process_loop_total:
  "current_temperature \<notin> set ss \<Longrightarrow> \<exists>d' ns'. process_loop m ss d ns = (d', Inr ns')"
proof (induction ss arbitrary: d ns)
  case Nil
  then show ?case by simp
next
  case (Cons s ss)
  then have "s \<noteq> current_temperature" by auto
  from process_status_total [OF this, of m d ns]
  obtain d' ns' where "process_status m s (d, ns) = Inr (d', ns')" by blast
  moreover from Cons have "\<exists>d'' ns''. process_loop m ss d' ns' = (d'', Inr ns'')" by auto
  ultimately show ?case by auto
qed

lemma attribute_order_split:
  "attribute_order =
     [light, fan_speed] @ direction # [oscillation, ventilation, smelly_sensor, current_temperature]"
  by (simp add: attribute_order_def)

lemma attribute_order_last:
  "attribute_order =
     [light, fan_speed, direction, oscillation, ventilation, smelly_sensor] @ [current_temperature]"
  by (simp add: attribute_order_def)

text \<open>
  The loop reaches the key \<^verbatim>\<open>direction\<close> with the stored direction and oscillation
  untouched, and that round does not raise.
\<close>

lemma direction_round:
  "\<exists>d1 ns1 d2 ns2.
     attributes d1 direction = attributes d direction
     \<and> attributes d1 oscillation = attributes d oscillation
     \<and> process_status m direction (d1, ns1) = Inr (d2, ns2)
     \<and> fst (process_message m d) =
         fst (process_loop m [oscillation, ventilation, smelly_sensor, current_temperature] d2 ns2)"
proof -
  let ?d0 = "d\<lparr>raw_fields := rsp_fields m\<rparr>"
  obtain d1 ns1 where l1: "process_loop m [light, fan_speed] ?d0 [] = (d1, Inr ns1)"
    using process_loop_total [of "[light, fan_speed]" m ?d0 "[]"] by auto
  have f1: "attributes d1 direction = attributes d direction"
    using process_loop_frame [of "[light, fan_speed]" direction m ?d0 "[]"] l1 by simp
  have f2: "attributes d1 oscillation = attributes d oscillation"
    using process_loop_frame [of "[light, fan_speed]" oscillation m ?d0 "[]"] l1 by simp
  obtain d2 ns2 where s: "process_status m direction (d1, ns1) = Inr (d2, ns2)"
    using process_status_total [of direction m d1 ns1] by auto
  have "fst (process_message m d) =
      fst (process_loop m [oscillation, ventilation, smelly_sensor, current_temperature] d2 ns2)"
    unfolding process_message_def attribute_order_split process_loop_append
    using l1 s by simp
  with f1 f2 s show ?thesis by blast
qed

text \<open>The stored direction after \<^verbatim>\<open>process_message\<close>, whatever else the response has.\<close>

lemma direction_after_process_message:
  "attributes (fst (process_message m d)) direction =
     (case rsp_attr m direction of
        None \<Rightarrow> attributes d direction
      | Some v \<Rightarrow>
          if py_in_ints v [DIRECTION_STOP, DIRECTION_00, DIRECTION_FF] then attributes d direction
          else if py_eq_int v DIRECTION_OSCILLATE then PNone
          else v)"
proof -
  obtain d1 ns1 d2 ns2 where
    f: "attributes d1 direction = attributes d direction"
    and s: "process_status m direction (d1, ns1) = Inr (d2, ns2)"
    and r: "fst (process_message m d) =
         fst (process_loop m [oscillation, ventilation, smelly_sensor, current_temperature] d2 ns2)"
    using direction_round [of d m] by blast
  have "attributes (fst (process_message m d)) direction = attributes d2 direction"
    unfolding r by (rule process_loop_frame) simp
  also have "\<dots> = (case rsp_attr m direction of
        None \<Rightarrow> attributes d direction
      | Some v \<Rightarrow>
          if py_in_ints v [DIRECTION_STOP, DIRECTION_00, DIRECTION_FF] then attributes d direction
          else if py_eq_int v DIRECTION_OSCILLATE then PNone
          else v)"
    using s f
    by (auto simp: process_status_cases store_status_def Let_def split: option.splits if_splits)
  finally show ?thesis .
qed

text \<open>
  The stored oscillation after \<^verbatim>\<open>process_message\<close>: the round of the key
  \<^verbatim>\<open>oscillation\<close> finds no such attribute in the response.
\<close>

lemma oscillation_after_process_message:
  "attributes (fst (process_message m d)) oscillation =
     (case rsp_attr m direction of
        None \<Rightarrow> attributes d oscillation
      | Some v \<Rightarrow>
          if py_in_ints v [DIRECTION_STOP, DIRECTION_00, DIRECTION_FF] then attributes d oscillation
          else PBool (py_eq_int v DIRECTION_OSCILLATE))"
proof -
  obtain d1 ns1 d2 ns2 where
    f: "attributes d1 oscillation = attributes d oscillation"
    and s: "process_status m direction (d1, ns1) = Inr (d2, ns2)"
    and r: "fst (process_message m d) =
         fst (process_loop m [oscillation, ventilation, smelly_sensor, current_temperature] d2 ns2)"
    using direction_round [of d m] by blast
  have "attributes (fst (process_message m d)) oscillation = attributes d2 oscillation"
    unfolding r by (rule process_loop_frame) simp
  also have "\<dots> = (case rsp_attr m direction of
        None \<Rightarrow> attributes d oscillation
      | Some v \<Rightarrow>
          if py_in_ints v [DIRECTION_STOP, DIRECTION_00, DIRECTION_FF] then attributes d oscillation
          else PBool (py_eq_int v DIRECTION_OSCILLATE))"
    using s f
    by (auto simp: process_status_cases store_status_def Let_def split: option.splits if_splits)
  finally show ?thesis .
qed

text \<open>
  The temperature is the last key: with halving on and a raw value that can be halved,
  the call returns and has stored the half.
\<close>

lemma temperature_after_process_message:
  assumes "truthy (precision_halves d)"
    and "rsp_attr m current_temperature = Some raw"
    and "py_truediv2 raw = Inr q"
  shows "attributes (fst (process_message m d)) current_temperature = q"
    and "\<exists>ns. snd (process_message m d) = Inr (ns @ [(''current_temperature'', q)])"
proof -
  let ?d0 = "d\<lparr>raw_fields := rsp_fields m\<rparr>"
  let ?pre = "[light, fan_speed, direction, oscillation, ventilation, smelly_sensor]"
  obtain d1 ns1 where l1: "process_loop m ?pre ?d0 [] = (d1, Inr ns1)"
    using process_loop_total [of ?pre m ?d0 "[]"] by auto
  have p: "precision_halves d1 = precision_halves d"
    using process_loop_rest [of m ?pre ?d0 "[]"] l1 by simp
  have pm: "process_message m d = process_loop m [current_temperature] d1 ns1"
    unfolding process_message_def attribute_order_last process_loop_append
    using l1 by simp
  have st: "process_status m current_temperature (d1, ns1) =
      Inr (store_status current_temperature q d1 ns1)"
    using assms p by (simp add: process_status_cases)
  show "attributes (fst (process_message m d)) current_temperature = q"
    unfolding pm using st by (simp add: store_status_def Let_def)
  show "\<exists>ns. snd (process_message m d) = Inr (ns @ [(''current_temperature'', q)])"
    unfolding pm using st by (simp add: store_status_def Let_def)
qed

section \<open>Facts about the other operations and the samples\<close>

lemma sample_device_eq:
  "sample_device =
     \<lparr>protocol_version = PInt 3, attributes = initial_attributes, raw_fields = [],
      precision_halves = PBool False, sent = [], updates = [], exception_log = []\<rparr>"
  by (simp add: sample_device_def new_device_def set_customize_def default_precision_halves_def)

lemmas process_eval =
  process_message_def attribute_order_def process_status_def store_status_def
  response_of_def sample_device_eq Let_def direction_consts

lemma json_loads_sample_true:
  \<open>json_loads_sample ''{"precision_halves": true}'' =
     Inr (PDict [(''precision_halves'', PBool True)])\<close>
  by (simp add: json_loads_sample_def)

lemma json_loads_sample_bad:
  "json_loads_sample ''{bad json'' = Inl JSONDecodeError"
  by (simp add: json_loads_sample_def)

lemma set_customize_sample_true:
  \<open>set_customize json_loads_sample ''{"precision_halves": true}'' sample_device =
     sample_device\<lparr>precision_halves := PBool True,
       updates := [[(''precision_halves'', PBool True)]]\<rparr>\<close>
  by (simp add: set_customize_def customize_params_def json_loads_sample_true update_all_def
      sample_device_eq default_precision_halves_def)

section \<open>The claims\<close>

subsection \<open>C1: coercion of a user-supplied direction\<close>

text \<open>
  C1 says that \<^verbatim>\<open>_convert_to_midea_direction\<close> never raises and returns 0xFF for every
  input that is not a valid direction, non-numeric strings included. The string
  \<^verbatim>\<open>"abc"\<close> is such an input, and the call raises the \<^verbatim>\<open>ValueError\<close> of
  \<^verbatim>\<open>int("abc")\<close>: line 86 converts before any test and nothing catches the exception,
  although the docstring of line 85 promises 0xFF for a value that is not valid.
\<close>

theorem convert_to_midea_direction_raises_on_text:
  "convert_to_midea_direction (PStr ''abc'') = Inl ValueError"
  by (simp add: convert_to_midea_direction_def int_of_str_def is_space_def is_digit_def)

subsection \<open>C2: the decode table of \<^verbatim>\<open>process_message\<close>\<close>

text \<open>
  C2: for every response that has a direction byte, \<^verbatim>\<open>process_message\<close> applies the
  decode table. For the bytes 0x00, 0xFE and 0xFF the stored direction and oscillation
  stay as they were; for 0xFD the stored oscillation becomes true and the stored
  direction \<^verbatim>\<open>None\<close>; for a byte from 60 to 120 the stored oscillation becomes false and
  the stored direction the byte. This holds of the device after the call also when a
  later round raises.
\<close>

theorem process_message_direction_decode:
  assumes "rsp_attr message direction = Some (PInt b)"
  shows "(b = 0x00 \<or> b = 0xFE \<or> b = 0xFF \<longrightarrow>
            attributes (fst (process_message message d)) direction = attributes d direction
            \<and> attributes (fst (process_message message d)) oscillation
                = attributes d oscillation)
         \<and> (b = 0xFD \<longrightarrow>
            attributes (fst (process_message message d)) oscillation = PBool True
            \<and> attributes (fst (process_message message d)) direction = PNone)
         \<and> (60 \<le> b \<and> b \<le> 120 \<longrightarrow>
            attributes (fst (process_message message d)) oscillation = PBool False
            \<and> attributes (fst (process_message message d)) direction = PInt b)"
  using assms
  by (auto simp: direction_after_process_message oscillation_after_process_message
      direction_consts)

theorem process_message_direction_decode_witness:
  "attributes (fst (process_message (response_of [(direction, PInt 0xFE)])
       (sample_device\<lparr>attributes :=
          initial_attributes(oscillation := PBool False, direction := PInt 75)\<rparr>)))
     direction = PInt 75
   \<and> attributes (fst (process_message (response_of [(direction, PInt 0xFE)])
       (sample_device\<lparr>attributes :=
          initial_attributes(oscillation := PBool False, direction := PInt 75)\<rparr>)))
     oscillation = PBool False
   \<and> attributes (fst (process_message (response_of [(direction, PInt 0xFD)])
       (sample_device\<lparr>attributes :=
          initial_attributes(oscillation := PBool False, direction := PInt 75)\<rparr>)))
     oscillation = PBool True
   \<and> attributes (fst (process_message (response_of [(direction, PInt 0xFD)])
       (sample_device\<lparr>attributes :=
          initial_attributes(oscillation := PBool False, direction := PInt 75)\<rparr>)))
     direction = PNone
   \<and> attributes (fst (process_message (response_of [(direction, PInt 90)]) sample_device))
     oscillation = PBool False
   \<and> attributes (fst (process_message (response_of [(direction, PInt 90)]) sample_device))
     direction = PInt 90"
  using process_message_direction_decode [of "response_of [(direction, PInt 0xFE)]" "0xFE"
      "sample_device\<lparr>attributes :=
         initial_attributes(oscillation := PBool False, direction := PInt 75)\<rparr>"]
    process_message_direction_decode [of "response_of [(direction, PInt 0xFD)]" "0xFD"
      "sample_device\<lparr>attributes :=
         initial_attributes(oscillation := PBool False, direction := PInt 75)\<rparr>"]
    process_message_direction_decode [of "response_of [(direction, PInt 90)]" 90 sample_device]
  by (simp add: response_of_def)

subsection \<open>C3: the direction byte from the stored state\<close>

text \<open>
  C3: \<^verbatim>\<open>_get_midea_direction\<close> returns 0xFD when the stored oscillation is true, whatever
  the stored direction; the stored direction when the oscillation is false and a
  direction is set; 0xFE when the oscillation is false and no direction is set; 0xFF
  when the oscillation is unset.
\<close>

theorem get_midea_direction_encode:
  "(attributes d oscillation = PBool True \<longrightarrow> get_midea_direction d = PInt 0xFD)
   \<and> (attributes d oscillation = PBool False \<and> attributes d direction \<noteq> PNone
        \<longrightarrow> get_midea_direction d = attributes d direction)
   \<and> (attributes d oscillation = PBool False \<and> attributes d direction = PNone
        \<longrightarrow> get_midea_direction d = PInt 0xFE)
   \<and> (attributes d oscillation = PNone \<longrightarrow> get_midea_direction d = PInt 0xFF)"
  by (simp add: get_midea_direction_def Let_def direction_consts)

theorem get_midea_direction_encode_witness:
  "get_midea_direction (sample_device\<lparr>attributes :=
       initial_attributes(oscillation := PBool True, direction := PInt 75)\<rparr>) = PInt 0xFD
   \<and> get_midea_direction (sample_device\<lparr>attributes :=
       initial_attributes(oscillation := PBool False, direction := PInt 75)\<rparr>) = PInt 75
   \<and> get_midea_direction (sample_device\<lparr>attributes :=
       initial_attributes(oscillation := PBool False)\<rparr>) = PInt 0xFE
   \<and> get_midea_direction sample_device = PInt 0xFF"
  using get_midea_direction_encode [of "sample_device\<lparr>attributes :=
        initial_attributes(oscillation := PBool True, direction := PInt 75)\<rparr>"]
    get_midea_direction_encode [of "sample_device\<lparr>attributes :=
        initial_attributes(oscillation := PBool False, direction := PInt 75)\<rparr>"]
    get_midea_direction_encode [of "sample_device\<lparr>attributes :=
        initial_attributes(oscillation := PBool False)\<rparr>"]
    get_midea_direction_encode [of sample_device]
  by (simp add: sample_device_eq)

subsection \<open>C4: the stored direction in reachable states\<close>

text \<open>
  C4 says that in every state that calls of \<^verbatim>\<open>process_message\<close> and \<^verbatim>\<open>set_attribute\<close>
  reach from a newly constructed device, the stored direction is unset or an integer
  from 60 to 120, which is also what the comment of line 66 says. The code does not
  keep it so: \<^verbatim>\<open>process_message\<close> stores a direction byte that is none of 0x00, 0xFD,
  0xFE and 0xFF as it is (the branch whose comment reads \<^verbatim>\<open>value is 60~120\<close> tests
  nothing), while \<^verbatim>\<open>_convert_to_midea_direction\<close> applies the range test to a value
  from the user. A new device that processes a response with the direction byte 30
  stores 30, the byte that the coercion of a user's value turns into 0xFF.
\<close>

theorem reachable_direction_out_of_range:
  "reachable (fst (process_message (response_of [(direction, PInt 30)]) sample_device))
   \<and> attributes (fst (process_message (response_of [(direction, PInt 30)]) sample_device))
        direction = PInt 30
   \<and> \<not> stored_direction_ok
        (attributes (fst (process_message (response_of [(direction, PInt 30)]) sample_device))
           direction)
   \<and> convert_to_midea_direction (PInt 30) = Inr 0xFF"
proof -
  have "reachable sample_device"
    unfolding sample_device_def by (rule reachable_new)
  then have "reachable
      (fst (process_message (response_of [(direction, PInt 30)]) sample_device))"
    by (rule reachable_process)
  moreover have
    "attributes (fst (process_message (response_of [(direction, PInt 30)]) sample_device))
      direction = PInt 30"
    by (simp add: process_eval)
  moreover have "convert_to_midea_direction (PInt 30) = Inr 0xFF"
    by (simp add: convert_to_midea_direction_def direction_consts)
  ultimately show ?thesis by (simp add: direction_consts)
qed

subsection \<open>C5: ventilation while the fan speed is 2\<close>

text \<open>
  C5: when \<^verbatim>\<open>set_attribute\<close> is called with the name \<^verbatim>\<open>ventilation\<close> while the stored fan
  speed equals 2, the call raises nothing and sends one message, which is the message
  built from the stored state with the fan speed 1 and the ventilation set to the
  requested value as a boolean.
\<close>

theorem set_attribute_ventilation_at_speed_2:
  assumes "py_eq_int (attributes d fan_speed) VENTILATION_FAN_SPEED"
  shows "set_attribute ''ventilation'' v d =
           (build_send ((message_from_state d)\<lparr>msg_fan_speed := PInt 1,
                          msg_ventilation := PBool (truthy v)\<rparr>) d, None)
         \<and> msg_fan_speed (last (sent (fst (set_attribute ''ventilation'' v d)))) = PInt 1
         \<and> msg_ventilation (last (sent (fst (set_attribute ''ventilation'' v d))))
             = PBool (truthy v)"
  using assms
  by (simp add: set_attribute_def settable_def message_from_state_def build_send_def)

theorem set_attribute_ventilation_at_speed_2_witness:
  "py_eq_int (attributes (sample_device\<lparr>attributes := initial_attributes(fan_speed := PInt 2)\<rparr>)
      fan_speed) VENTILATION_FAN_SPEED
   \<and> sent (fst (set_attribute ''ventilation'' (PBool True)
                 (sample_device\<lparr>attributes := initial_attributes(fan_speed := PInt 2)\<rparr>))) =
       [\<lparr>msg_protocol_version = PInt 3, msg_fields = [], msg_light = PBool False,
         msg_ventilation = PBool True, msg_smelly_sensor = PBool False,
         msg_fan_speed = PInt 1, msg_direction = PInt 0xFF\<rparr>]"
  using set_attribute_ventilation_at_speed_2
    [of "sample_device\<lparr>attributes := initial_attributes(fan_speed := PInt 2)\<rparr>" "PBool True"]
  by (simp add: sample_device_eq VENTILATION_FAN_SPEED_def message_from_state_def build_send_def
      get_midea_direction_def direction_consts)

subsection \<open>C6: halved temperature\<close>

text \<open>
  C6: when precision halving is on (the stored flag is true in Python's sense), for
  every response that has a raw \<^verbatim>\<open>current_temperature\<close>, \<^verbatim>\<open>process_message\<close> stores the
  raw value divided by two: whenever Python's \<^verbatim>\<open>raw / 2\<close> has a value, the call returns,
  reports that value and has stored it; for a raw integer of less than 54 bits, so for
  every byte, the stored value is exactly half of it.
\<close>

theorem process_message_halves_temperature:
  assumes "truthy (precision_halves d)"
    and "rsp_attr message current_temperature = Some raw"
  shows "(\<forall>q. py_truediv2 raw = Inr q \<longrightarrow>
            attributes (fst (process_message message d)) current_temperature = q
            \<and> (\<exists>ns. snd (process_message message d)
                  = Inr (ns @ [(''current_temperature'', q)])))
         \<and> (\<forall>n. raw = PInt n \<and> \<bar>n\<bar> < 2 ^ 53 \<longrightarrow>
            attributes (fst (process_message message d)) current_temperature
              = PFloat (FFin (of_int n / 2)))"
proof (intro conjI allI impI)
  fix q assume "py_truediv2 raw = Inr q"
  from temperature_after_process_message [OF assms this]
  show "attributes (fst (process_message message d)) current_temperature = q"
    and "\<exists>ns. snd (process_message message d) = Inr (ns @ [(''current_temperature'', q)])"
    by simp_all
next
  fix n assume n: "raw = PInt n \<and> \<bar>n\<bar> < 2 ^ 53"
  then have "py_truediv2 raw = Inr (PFloat (FFin (of_int n / 2)))"
    by (simp add: int_truediv2_exact)
  from temperature_after_process_message(1) [OF assms this]
  show "attributes (fst (process_message message d)) current_temperature
      = PFloat (FFin (of_int n / 2))" .
qed

text \<open>
  The example of C6: after the customize string that sets \<^verbatim>\<open>precision_halves\<close> to true,
  a raw temperature of 50 is stored as 25.
\<close>

theorem process_message_halves_temperature_witness:
  \<open>precision_halves
      (set_customize json_loads_sample ''{"precision_halves": true}'' sample_device)
      = PBool True
    \<and> attributes (fst (process_message (response_of [(current_temperature, PInt 50)])
         (set_customize json_loads_sample ''{"precision_halves": true}'' sample_device)))
       current_temperature = PFloat (FFin 25)\<close>
  using process_message_halves_temperature
    [of \<open>set_customize json_loads_sample ''{"precision_halves": true}'' sample_device\<close>
      "response_of [(current_temperature, PInt 50)]" "PInt 50"]
  unfolding set_customize_sample_true
  by (simp add: response_of_def)

subsection \<open>C7: the empty customize string\<close>

text \<open>
  C7, as stated, fails in its second half: the call of \<^verbatim>\<open>update_all\<close> (line 174) stands
  inside the test of line 167, so an empty string resets the flag and notifies
  nobody. A device whose flag was set to true is given the empty string: the flag is
  false afterwards and the list of notifications is what it was.
\<close>

theorem set_customize_empty_sends_no_update:
  \<open>precision_halves
      (set_customize json_loads_sample ''{"precision_halves": true}'' sample_device)
      = PBool True
    \<and> precision_halves (set_customize json_loads_sample ''''
        (set_customize json_loads_sample ''{"precision_halves": true}'' sample_device))
      = PBool False
    \<and> updates (set_customize json_loads_sample ''''
        (set_customize json_loads_sample ''{"precision_halves": true}'' sample_device))
      = updates
          (set_customize json_loads_sample ''{"precision_halves": true}'' sample_device)\<close>
  unfolding set_customize_sample_true
  by (simp add: set_customize_def default_precision_halves_def)

text \<open>
  C7 amended: a call of \<^verbatim>\<open>set_customize\<close> with the empty string sets the precision flag
  to the default false, whatever it was, and does nothing else (no notification is
  sent); for every customize string that is not empty, the resolved flag is given to
  \<^verbatim>\<open>update_all\<close>.
\<close>

theorem set_customize_empty_resets:
  "set_customize json_loads '''' d = d\<lparr>precision_halves := PBool False\<rparr>
   \<and> (customize \<noteq> [] \<longrightarrow>
        updates (set_customize json_loads customize d) =
          updates d @ [[(''precision_halves'',
                         precision_halves (set_customize json_loads customize d))]])"
  by (simp add: set_customize_def update_all_def default_precision_halves_def Let_def
      split: sum.splits option.splits)

theorem set_customize_empty_resets_witness:
  \<open>set_customize json_loads_sample ''''
      (set_customize json_loads_sample ''{"precision_halves": true}'' sample_device)
     = sample_device\<lparr>precision_halves := PBool False,
         updates := [[(''precision_halves'', PBool True)]]\<rparr>
    \<and> updates (set_customize json_loads_sample ''{"precision_halves": true}'' sample_device)
       = [[(''precision_halves'', PBool True)]]\<close>
  using set_customize_empty_resets [of json_loads_sample
      \<open>set_customize json_loads_sample ''{"precision_halves": true}'' sample_device\<close>
      \<open>''{"precision_halves": true}''\<close>]
    set_customize_empty_resets
      [of json_loads_sample sample_device \<open>''{"precision_halves": true}''\<close>]
  unfolding set_customize_sample_true
  by (simp add: sample_device_eq)

subsection \<open>C8: a customize string that is not JSON\<close>

text \<open>
  C8: for every customize string that is not empty and on which \<^verbatim>\<open>json.loads\<close> raises,
  \<^verbatim>\<open>set_customize\<close> returns (it has no way to raise: the handler catches the exception),
  logs the exception, leaves the precision flag at the default false and gives that
  flag to \<^verbatim>\<open>update_all\<close>; nothing else changes.
\<close>

theorem set_customize_invalid_json:
  assumes "customize \<noteq> []"
    and "json_loads customize = Inl e"
  shows "set_customize json_loads customize d =
           d\<lparr>precision_halves := default_precision_halves,
             updates := updates d @ [[(''precision_halves'', default_precision_halves)]],
             exception_log := exception_log d @ [e]\<rparr>
         \<and> precision_halves (set_customize json_loads customize d) = PBool False"
  using assms
  by (simp add: set_customize_def customize_params_def update_all_def
      default_precision_halves_def Let_def)

theorem set_customize_invalid_json_witness:
  \<open>''{bad json'' \<noteq> [] \<and> json_loads_sample ''{bad json'' = Inl JSONDecodeError
    \<and> set_customize json_loads_sample ''{bad json''
        (set_customize json_loads_sample ''{"precision_halves": true}'' sample_device)
      = sample_device\<lparr>precision_halves := PBool False,
          updates := [[(''precision_halves'', PBool True)], [(''precision_halves'', PBool False)]],
          exception_log := [JSONDecodeError]\<rparr>\<close>
  using set_customize_invalid_json [of \<open>''{bad json''\<close> json_loads_sample JSONDecodeError
      \<open>set_customize json_loads_sample ''{"precision_halves": true}'' sample_device\<close>]
  unfolding set_customize_sample_true
  by (simp add: json_loads_sample_bad sample_device_eq default_precision_halves_def)

subsection \<open>C9: \<^verbatim>\<open>set_attribute\<close> keeps the stored state\<close>

text \<open>
  C9: for every attribute name and value, \<^verbatim>\<open>set_attribute\<close> leaves the stored attributes,
  the raw field cache and the precision flag as they were, also when it raises; the
  device after the call differs from the one before at most in the list of messages
  sent, which is the same or longer by one message.
\<close>

theorem set_attribute_keeps_state:
  "attributes (fst (set_attribute attr v d)) = attributes d
   \<and> raw_fields (fst (set_attribute attr v d)) = raw_fields d
   \<and> precision_halves (fst (set_attribute attr v d)) = precision_halves d
   \<and> fst (set_attribute attr v d) = d\<lparr>sent := sent (fst (set_attribute attr v d))\<rparr>
   \<and> (sent (fst (set_attribute attr v d)) = sent d
       \<or> (\<exists>message. sent (fst (set_attribute attr v d)) = sent d @ [message]))"
  by (simp add: set_attribute_def build_send_def Let_def split: sum.splits)

subsection \<open>C10: names that cannot be set\<close>

text \<open>
  C10: for every attribute name other than \<^verbatim>\<open>light\<close>, \<^verbatim>\<open>fan_speed\<close>, \<^verbatim>\<open>direction\<close>,
  \<^verbatim>\<open>ventilation\<close> and \<^verbatim>\<open>smelly_sensor\<close>, \<^verbatim>\<open>set_attribute\<close> does nothing: the device is
  unchanged, no message is sent and nothing is raised.
\<close>

theorem set_attribute_other_name_noop:
  assumes "attr \<notin> {''light'', ''fan_speed'', ''direction'', ''ventilation'', ''smelly_sensor''}"
  shows "set_attribute attr v d = (d, None)"
  using assms by (simp add: set_attribute_def settable_def)

theorem set_attribute_other_name_noop_witness:
  "''oscillation'' \<notin> {''light'', ''fan_speed'', ''direction'', ''ventilation'', ''smelly_sensor''}
   \<and> set_attribute ''oscillation'' (PBool True) sample_device = (sample_device, None)
   \<and> set_attribute ''current_temperature'' (PInt 20) sample_device = (sample_device, None)
   \<and> set_attribute ''power'' (PStr ''on'') sample_device = (sample_device, None)"
  using set_attribute_other_name_noop [of "''oscillation''" "PBool True" sample_device]
    set_attribute_other_name_noop [of "''current_temperature''" "PInt 20" sample_device]
    set_attribute_other_name_noop [of "''power''" "PStr ''on''" sample_device]
  by simp

end
